theory Spec2Isabelle
  imports Main "HOL-Library.Sublist"
begin

text \<open>
  A model of the bulk image generator: the run of the generator page (\<open>handleGenerate\<close>
  of \<open>GeneratorPage\<close>), the callbacks the application gives it (\<open>updateApiKeyStatus\<close>
  and \<open>handleGenerationUpdate\<close> of \<open>App.tsx\<close>) and the service module
  \<open>services/apiService.ts\<close> (failure classification, the gateway dispatcher, the session
  recorder). State is passed explicitly, a thrown value is the \<open>Inl\<close> of a sum, and what
  the network, the clock and the user do is given by a \<open>world\<close>.
\<close>

section \<open>Data model (types.ts)\<close>

text \<open>
  Strings are sequences of 8-bit code units (Latin-1); the string enums of the source
  keep their run-time representation where a value outside the enum can reach the code.
\<close>

datatype ApiKeyStatus = Active | RateLimited

type_synonym AIService = string

definition AIService_Gemini :: AIService where
  "AIService_Gemini = ''Gemini''"

definition AIService_OpenAI :: AIService where
  "AIService_OpenAI = ''OpenAI''"

text \<open>
  The interfaces \<open>ApiKey\<close>, \<open>GenerationResult\<close> and \<open>HistoryItem\<close>. Each field keeps
  its name behind the initials of its interface, which leaves the plain names to the
  parameters and locals of the functions below. An absent \<open>error\<close> is \<open>None\<close>.
\<close>

record ApiKey =
  ak_key :: string
  ak_status :: ApiKeyStatus
  ak_service :: AIService

record GenerationResult =
  gr_prompt :: string
  gr_images :: "string list"
  gr_error :: "string option"

record HistoryItem =
  hi_id :: string
  hi_date :: string
  hi_results :: "GenerationResult list"

section \<open>Strings of the host language\<close>

text \<open>\<open>String.prototype.trim\<close>: the white space and line terminators below code unit 256.\<close>

definition isWhiteSpace :: "char \<Rightarrow> bool" where
  "isWhiteSpace c = ((of_char c :: nat) \<in> {9, 10, 11, 12, 13, 32, 160})"

definition trim :: "string \<Rightarrow> string" where
  "trim s = rev (dropWhile isWhiteSpace (rev (dropWhile isWhiteSpace s)))"

text \<open>
  \<open>String.prototype.toLowerCase\<close> on code units below 256: the capital letters are
  \<open>A\<close> to \<open>Z\<close> and the Latin-1 capitals (192 to 222 without the multiplication sign
  215); the small letter is 32 above, which sets the bit of weight 32.
\<close>

definition isUpper :: "char \<Rightarrow> bool" where
  "isUpper c =
     (let n = (of_char c :: nat)
      in (65 \<le> n \<and> n \<le> 90) \<or> (192 \<le> n \<and> n \<le> 222 \<and> n \<noteq> 215))"

definition lowerChar :: "char \<Rightarrow> char" where
  "lowerChar c =
     (if isUpper c
      then (case c of Char b0 b1 b2 b3 b4 b5 b6 b7 \<Rightarrow> Char b0 b1 b2 b3 b4 True b6 b7)
      else c)"

definition toLowerCase :: "string \<Rightarrow> string" where
  "toLowerCase s = map lowerChar s"

text \<open>\<open>s.includes(sub)\<close>: \<open>sub\<close> occurs in \<open>s\<close> as a contiguous run.\<close>

fun str_includes :: "string \<Rightarrow> string \<Rightarrow> bool" where
  "str_includes [] sub = (sub = [])"
| "str_includes (c # cs) sub = (prefix sub (c # cs) \<or> str_includes cs sub)"

text \<open>\<open>s.split('\n')\<close>: never empty, one piece more than there are line feeds.\<close>

fun split_nl :: "string \<Rightarrow> string list" where
  "split_nl [] = [[]]"
| "split_nl (c # cs) =
     (if c = CHR 0x0A then [] # split_nl cs
      else (case split_nl cs of [] \<Rightarrow> [[c]] | l # ls \<Rightarrow> (c # l) # ls))"

text \<open>\<open>s.slice(-6)\<close>: the last six code units (the whole string when it is shorter).\<close>

definition slice_last6 :: "string \<Rightarrow> string" where
  "slice_last6 s = drop (length s - 6) s"

section \<open>Values a catch clause can receive\<close>

text \<open>
  The gateway throws either the parsed JSON body of a failed HTTP response
  (\<open>throw data\<close>) or an \<open>Error\<close> object built by \<open>new Error(message)\<close>.
  JSON numbers are restricted to integers. An object is the list of its own properties in
  order; a property read takes the first entry of that name.
\<close>

datatype jsval =
    JUndefined
  | JNull
  | JBool bool
  | JNum int
  | JStr string
  | JArr "jsval list"
  | JObj "(string \<times> jsval) list"
  | JError string

text \<open>Truthiness, as \<open>!error\<close> and \<open>a || b\<close> test it.\<close>

fun truthy :: "jsval \<Rightarrow> bool" where
  "truthy JUndefined = False"
| "truthy JNull = False"
| "truthy (JBool b) = b"
| "truthy (JNum n) = (n \<noteq> 0)"
| "truthy (JStr s) = (s \<noteq> [])"
| "truthy (JArr xs) = True"
| "truthy (JObj fs) = True"
| "truthy (JError m) = True"

text \<open>
  The property read \<open>v.name\<close> for the four names the source reads (\<open>error\<close>,
  \<open>status\<close>, \<open>code\<close>, \<open>message\<close>). On \<open>undefined\<close> and \<open>null\<close> the
  source reads only behind a truthiness guard or with \<open>?.\<close>, so the result there is
  \<open>undefined\<close>.
\<close>

fun getProp :: "jsval \<Rightarrow> string \<Rightarrow> jsval" where
  "getProp (JObj fs) name = (case map_of fs name of Some v \<Rightarrow> v | None \<Rightarrow> JUndefined)"
| "getProp (JError m) name = (if name = ''message'' then JStr m else JUndefined)"
| "getProp v name = JUndefined"

text \<open>\<open>typeof v === 'object'\<close> and \<open>Array.isArray(v)\<close>.\<close>

fun isObject :: "jsval \<Rightarrow> bool" where
  "isObject JNull = True"
| "isObject (JArr xs) = True"
| "isObject (JObj fs) = True"
| "isObject (JError m) = True"
| "isObject v = False"

fun isArray :: "jsval \<Rightarrow> bool" where
  "isArray (JArr xs) = True"
| "isArray v = False"

text \<open>\<open>error instanceof Error\<close> and \<open>'error' in error\<close>.\<close>

fun instanceofError :: "jsval \<Rightarrow> bool" where
  "instanceofError (JError m) = True"
| "instanceofError v = False"

fun hasErrorProp :: "jsval \<Rightarrow> bool" where
  "hasErrorProp (JObj fs) = (''error'' \<in> fst ` set fs)"
| "hasErrorProp v = False"

section \<open>Failure classification (services/apiService.ts)\<close>

text \<open>
  \<open>JSON.stringify\<close> is a built-in of the host; every function that reaches it takes it
  as the parameter \<open>stringify\<close>, so what is proved holds whatever text the host prints.

  \<open>getErrorMessage\<close> is declared to return a string, but its first \<open>return\<close> hands back
  the \<open>message\<close> member as it finds it, whatever its type; so the result is a value.
\<close>

definition getErrorMessage :: "(jsval \<Rightarrow> string) \<Rightarrow> jsval \<Rightarrow> jsval" where
  "getErrorMessage stringify error =
     (if \<not> truthy error then JStr ''An unknown error occurred.''
      else
        let errorDetails = (if truthy (getProp error ''error'') then getProp error ''error'' else error)
        in if isObject errorDetails \<and> \<not> isArray errorDetails
              \<and> truthy (getProp errorDetails ''message'')
           then getProp errorDetails ''message''
           else
             (case error of
                JStr s \<Rightarrow> JStr s
              | _ \<Rightarrow>
                  if stringify error \<noteq> ''{}'' then JStr (stringify error)
                  else JStr ''An unknown error occurred. Check the console for details.''))"

text \<open>
  The call \<open>v.toLowerCase()\<close>: a string has the method; on any other value the call
  throws a \<open>TypeError\<close>.
\<close>

datatype exn = TypeError

definition callToLowerCase :: "jsval \<Rightarrow> exn + string" where
  "callToLowerCase v = (case v of JStr s \<Rightarrow> Inr (toLowerCase s) | _ \<Rightarrow> Inl TypeError)"

definition isRateLimitError :: "(jsval \<Rightarrow> string) \<Rightarrow> jsval \<Rightarrow> exn + bool" where
  "isRateLimitError stringify error =
     (if \<not> truthy error then Inr False
      else
        let details = (if truthy (getProp error ''error'') then getProp error ''error'' else error)
        in if getProp details ''status'' = JStr ''RESOURCE_EXHAUSTED'' \<or> getProp details ''code'' = JNum 429
           then Inr True
           else if getProp details ''code'' = JStr ''rate_limit_exceeded'' then Inr True
           else
             (case callToLowerCase (getErrorMessage stringify error) of
                Inl thrown \<Rightarrow> Inl thrown
              | Inr message \<Rightarrow>
                  Inr (str_includes message ''quota'' \<or> str_includes message ''rate limit''
                       \<or> str_includes message ''resource exhausted'')))"

definition isPromptError :: "(jsval \<Rightarrow> string) \<Rightarrow> jsval \<Rightarrow> exn + bool" where
  "isPromptError stringify error =
     (case callToLowerCase (getErrorMessage stringify error) of
        Inl thrown \<Rightarrow> Inl thrown
      | Inr message \<Rightarrow> Inr (str_includes message ''prompt'' \<or> str_includes message ''safety''))"

text \<open>
  The \<open>error\<close> member of an outcome is declared a string; where the source stores the
  result of \<open>getErrorMessage\<close> there, \<open>isPromptError\<close> has returned, so it is one.
\<close>

definition asString :: "jsval \<Rightarrow> string option" where
  "asString v = (case v of JStr s \<Rightarrow> Some s | _ \<Rightarrow> None)"

section \<open>The gateway dispatcher (services/apiService.ts)\<close>

text \<open>
  The two provider functions perform the HTTP exchange; they are parameters. A call
  either returns the image payloads (\<open>Inr\<close>) or throws (\<open>Inl\<close>). The dispatcher's result
  is paired with the provider calls it made, in order.
\<close>

record providers =
  generateImagesGemini :: "string \<Rightarrow> string \<Rightarrow> nat \<Rightarrow> jsval + string list"
  generateImagesOpenAI :: "string \<Rightarrow> string \<Rightarrow> jsval + string list"

datatype providerCall = GeminiCall string string nat | OpenAICall string string

definition generateImages ::
  "providers \<Rightarrow> string \<Rightarrow> string \<Rightarrow> nat \<Rightarrow> AIService \<Rightarrow> providerCall list \<times> (jsval + string list)" where
  "generateImages pv prompt apiKey numImages service =
     (if apiKey = [] \<or> trim apiKey = []
      then ([], Inl (JError ''A valid API key must be provided.''))
      else
        let (called, r) =
              (if service = AIService_Gemini
               then ([GeminiCall prompt apiKey numImages],
                     generateImagesGemini pv prompt apiKey numImages)
               else if service = AIService_OpenAI
               then ([OpenAICall prompt apiKey], generateImagesOpenAI pv prompt apiKey)
               else ([], Inl (JError (''Unsupported AI service: '' @ service))))
        in (called,
            case r of
              Inr generatedImages \<Rightarrow> Inr generatedImages
            | Inl error \<Rightarrow>
                if instanceofError error \<and> \<not> hasErrorProp error
                then Inl (JError (''Failed to call the '' @ service
                       @ '' API. Please check your network connection or console for details.''))
                else Inl error))"

section \<open>The session recorder (services/apiService.ts)\<close>

text \<open>
  The browser store under \<open>HISTORY_KEY\<close>: \<open>None\<close> when the key is absent or its text
  does not parse, otherwise the stored list. Writes are taken to succeed.
\<close>

type_synonym storage = "HistoryItem list option"

definition loadHistory :: "storage \<Rightarrow> HistoryItem list" where
  "loadHistory store = (case store of None \<Rightarrow> [] | Some storedHistory \<Rightarrow> storedHistory)"

definition saveHistory :: "HistoryItem list \<Rightarrow> storage \<Rightarrow> storage" where
  "saveHistory history store = Some history"

text \<open>\<open>Array.prototype.findIndex\<close>; \<open>None\<close> stands for the result \<open>-1\<close>.\<close>

fun findIndex :: "('a \<Rightarrow> bool) \<Rightarrow> 'a list \<Rightarrow> nat option" where
  "findIndex p [] = None"
| "findIndex p (x # xs) = (if p x then Some 0 else map_option Suc (findIndex p xs))"

text \<open>
  \<open>updateHistory\<close>; \<open>now\<close> is the value of \<open>new Date().toLocaleString()\<close> at the call.
  The result is the returned list and the store after \<open>saveHistory\<close>.
\<close>

definition updateHistory ::
  "string \<Rightarrow> string \<Rightarrow> GenerationResult list \<Rightarrow> storage \<Rightarrow> HistoryItem list \<times> storage" where
  "updateHistory now sessionId newResults store =
     (let currentHistory = loadHistory store;
          updatedHistory =
            (case findIndex (\<lambda>item. hi_id item = sessionId) currentHistory of
               Some itemIndex \<Rightarrow>
                 currentHistory[itemIndex := (currentHistory ! itemIndex)\<lparr>hi_results := newResults\<rparr>]
             | None \<Rightarrow> \<lparr>hi_id = sessionId, hi_date = now, hi_results = newResults\<rparr> # currentHistory)
      in (updatedHistory, saveHistory updatedHistory store))"

section \<open>The world around a run\<close>

text \<open>
  A run is one sequential asynchronous task. It is suspended only at its \<open>await\<close>s: the
  gateway call and the cool-down timer. The suspensions of a run are numbered; the world
  says, for each one, what the gateway call made there yields and whether the user presses
  Stop while the task is suspended there. The page calls the gateway as
  \<open>generateImages(prompt, apiKey.key, numImages)\<close>; its outcome is the world's, so what is
  proved holds for every gateway, the dispatcher above included. The world also gives the
  host's renderings of the current time and its \<open>JSON.stringify\<close>.
\<close>

record world =
  gateway :: "nat \<Rightarrow> string \<Rightarrow> string \<Rightarrow> nat \<Rightarrow> jsval + string list"
  stopClicked :: "nat \<Rightarrow> bool"
  stringify :: "jsval \<Rightarrow> string"
  toLocaleString :: "nat \<Rightarrow> string"
  toISOString :: "nat \<Rightarrow> string"

text \<open>
  The status line. Each constructor is one message of the source:
  \<^item> \<open>NoStatus\<close>: the empty string;
  \<^item> \<open>Starting\<close>: \<open>Starting generation...\<close>;
  \<^item> \<open>StoppedByUser\<close>: \<open>Generation stopped by user.\<close>;
  \<^item> \<open>Processing j n p\<close>: \<open>Processing prompt j of n: "p"\<close>;
  \<^item> \<open>TryingKey j n k\<close>: \<open>[Prompt j/n] Trying key ...k\<close>;
  \<^item> \<open>KeyRateLimited k\<close>: \<open>Key ...k rate limited. Cooling down for 2s...\<close>;
  \<^item> \<open>KeyFailed k\<close>: \<open>Key ...k failed. Trying next key.\<close>;
  \<^item> \<open>AllProcessed\<close>: \<open>All prompts processed.\<close>;
  \<^item> \<open>Stopping\<close>: \<open>Stopping generation...\<close>.
\<close>

datatype statusMsg =
    NoStatus
  | Starting
  | StoppedByUser
  | Processing nat nat string
  | TryingKey nat nat string
  | KeyRateLimited string
  | KeyFailed string
  | AllProcessed
  | Stopping

text \<open>
  Everything a run reads or writes outside its closure:
  \<^item> \<open>stopRequest\<close>, \<open>isLoading\<close>, \<open>statusMessage\<close>, \<open>currentKeyIndex\<close>: the ref and the
    state cells of the generator page;
  \<^item> \<open>keyIdx\<close>, \<open>finalResults\<close>: the two locals of \<open>handleGenerate\<close> that live across
    prompts (\<open>setResults\<close> keeps the page's \<open>results\<close> cell equal to \<open>finalResults\<close>);
  \<^item> \<open>pool\<close>: the credential list last given to \<open>setApiKeys\<close> and written to the browser
    store by \<open>updateApiKeys\<close>;
  \<^item> \<open>history\<close>, \<open>store\<close>: the application's history cell and the browser store under
    \<open>HISTORY_KEY\<close>;
  \<^item> \<open>rejected\<close>: what the promise of the run was rejected with, when an exception has
    left \<open>handleGenerate\<close>; nothing of the run is executed after that;
  \<^item> \<open>tick\<close>: the number of suspensions so far; \<open>calls\<close>: the gateway calls made, in
    order (prompt, key, image count); \<open>waited\<close>: the milliseconds spent in cool-down
    timers.
\<close>

record state =
  stopRequest :: bool
  isLoading :: bool
  statusMessage :: statusMsg
  currentKeyIndex :: nat
  keyIdx :: nat
  finalResults :: "GenerationResult list"
  pool :: "ApiKey list"
  history :: "HistoryItem list"
  store :: storage
  rejected :: "exn option"
  tick :: nat
  calls :: "(string \<times> string \<times> nat) list"
  waited :: nat

section \<open>The application's callbacks (App.tsx)\<close>

text \<open>
  \<open>apiKeys\<close> is the state value of the render that created the callback, a constant of
  its closure: \<open>setApiKeys\<close> hands the new list to the next render, \<open>updateApiKeys\<close> also
  writes it to the browser store, and neither changes the array this closure holds
  (\<open>map\<close> and the object spread build new values). So the list is a parameter of
  \<open>updateApiKeyStatus\<close>, and \<open>pool\<close> receives what the next render will see.
\<close>

definition updateApiKeys :: "ApiKey list \<Rightarrow> state \<Rightarrow> state" where
  "updateApiKeys newKeys st = st\<lparr>pool := newKeys\<rparr>"

definition updateApiKeyStatus :: "ApiKey list \<Rightarrow> string \<Rightarrow> ApiKeyStatus \<Rightarrow> state \<Rightarrow> state" where
  "updateApiKeyStatus apiKeys key status st =
     updateApiKeys (map (\<lambda>k. if ak_key k = key then k\<lparr>ak_status := status\<rparr> else k) apiKeys) st"

definition handleGenerationUpdate ::
  "world \<Rightarrow> string \<Rightarrow> GenerationResult list \<Rightarrow> state \<Rightarrow> state" where
  "handleGenerationUpdate w sessionId results st =
     (if list_ex (\<lambda>r. length (gr_images r) > 0) results
      then
        let (updatedHistory, store') =
              updateHistory (toLocaleString w (tick st)) sessionId results (store st)
        in st\<lparr>history := updatedHistory, store := store'\<rparr>
      else st)"

section \<open>The orchestrator (GeneratorPage, handleGenerate)\<close>

definition handleStop :: "state \<Rightarrow> state" where
  "handleStop st = st\<lparr>stopRequest := True, statusMessage := Stopping\<rparr>"

text \<open>One suspension: the user may press Stop while the task is away.\<close>

definition suspend :: "world \<Rightarrow> state \<Rightarrow> state" where
  "suspend w st =
     (let st' = (if stopClicked w (tick st) then handleStop st else st)
      in st'\<lparr>tick := tick st + 1\<rparr>)"

text \<open>\<open>await generateImages(prompt, apiKey.key, numImages)\<close>.\<close>

definition awaitGenerateImages ::
  "world \<Rightarrow> string \<Rightarrow> string \<Rightarrow> nat \<Rightarrow> state \<Rightarrow> (jsval + string list) \<times> state" where
  "awaitGenerateImages w prompt apiKey numImages st =
     (gateway w (tick st) prompt apiKey numImages,
      suspend w (st\<lparr>calls := calls st @ [(prompt, apiKey, numImages)]\<rparr>))"

text \<open>
  \<open>await new Promise(resolve => setTimeout(resolve, ms))\<close>: only the timer resolves the
  promise, so the task is away for the whole of \<open>ms\<close>.
\<close>

definition awaitTimeout :: "world \<Rightarrow> nat \<Rightarrow> state \<Rightarrow> state" where
  "awaitTimeout w ms st = suspend w (st\<lparr>waited := waited st + ms\<rparr>)"

text \<open>
  The \<open>catch\<close> clause of one attempt. The first component of the result is the
  \<open>promptResult\<close> it sets, and \<open>Some\<close> there means it leaves the loop by \<open>break\<close>. The
  clause has no handler of its own: what \<open>isPromptError\<close> or \<open>isRateLimitError\<close> throws
  leaves \<open>handleGenerate\<close> and rejects its promise.
\<close>

definition catchBlock ::
  "world \<Rightarrow> ApiKey list \<Rightarrow> string \<Rightarrow> ApiKey \<Rightarrow> jsval \<Rightarrow> nat \<Rightarrow> state
     \<Rightarrow> GenerationResult option \<times> nat \<times> state" where
  "catchBlock w apiKeys prompt apiKey error attempts st =
     (case isPromptError (stringify w) error of
        Inl thrown \<Rightarrow> (None, attempts, st\<lparr>rejected := Some thrown\<rparr>)
      | Inr True \<Rightarrow>
          (Some \<lparr>gr_prompt = prompt, gr_images = [],
                 gr_error = asString (getErrorMessage (stringify w) error)\<rparr>, attempts, st)
      | Inr False \<Rightarrow>
          (case isRateLimitError (stringify w) error of
             Inl thrown \<Rightarrow> (None, attempts, st\<lparr>rejected := Some thrown\<rparr>)
           | Inr rateLimited \<Rightarrow>
               let st1 =
                     (if rateLimited
                      then
                        let s1 = updateApiKeyStatus apiKeys (ak_key apiKey) RateLimited st;
                            s2 = s1\<lparr>statusMessage :=
                                      KeyRateLimited (slice_last6 (ak_key apiKey))\<rparr>
                        in if \<not> stopRequest s2 then awaitTimeout w 2000 s2 else s2
                      else
                        let s1 = updateApiKeyStatus apiKeys (ak_key apiKey) RateLimited st
                        in s1\<lparr>statusMessage := KeyFailed (slice_last6 (ak_key apiKey))\<rparr>)
               in (None, attempts + 1, st1\<lparr>keyIdx := keyIdx st1 + 1\<rparr>)))"

text \<open>
  The loop \<open>while (!success && attempts < activeKeysForPrompt.length)\<close>, with \<open>n\<close> the
  length of \<open>activeKeysForPrompt\<close>. The result is \<open>promptResult\<close>, \<open>success\<close> and the
  state at the loop's exit; \<open>success\<close> is false on every entry, since setting it ends the
  loop. An exception out of the \<open>catch\<close> clause ends the loop with the run. \<open>apiKeys\<close> is the property the page was rendered with when \<open>handleGenerate\<close>
  was created, a constant of the running closure; that render also created the
  \<open>updateApiKeyStatus\<close> the run calls, over the same array.
\<close>

function whileAttempts ::
  "world \<Rightarrow> ApiKey list \<Rightarrow> nat \<Rightarrow> nat \<Rightarrow> string \<Rightarrow> nat \<Rightarrow> nat \<Rightarrow> nat \<Rightarrow> state
     \<Rightarrow> GenerationResult option \<times> bool \<times> state" where
  "whileAttempts w apiKeys i len prompt numImages n attempts st =
     (if attempts < n then
        if stopRequest st then (None, False, st)
        else
          let currentActiveKeys = filter (\<lambda>k. ak_status k = Active) apiKeys
          in if length currentActiveKeys = 0
             then (Some \<lparr>gr_prompt = prompt, gr_images = [],
                         gr_error = Some ''All available keys are rate-limited.''\<rparr>, False, st)
             else
               let st1 = st\<lparr>keyIdx := keyIdx st mod length currentActiveKeys\<rparr>;
                   apiKey = currentActiveKeys ! keyIdx st1;
                   st2 = st1\<lparr>statusMessage :=
                               TryingKey (i + 1) len (slice_last6 (ak_key apiKey))\<rparr>;
                   called = awaitGenerateImages w prompt (ak_key apiKey) numImages st2
               in case fst called of
                    Inr generatedImages \<Rightarrow>
                      (Some \<lparr>gr_prompt = prompt, gr_images = generatedImages, gr_error = None\<rparr>,
                       True, (snd called)\<lparr>currentKeyIndex := keyIdx (snd called)\<rparr>)
                  | Inl error \<Rightarrow>
                      (let caught = catchBlock w apiKeys prompt apiKey error attempts (snd called)
                       in case fst caught of
                            Some promptResult \<Rightarrow> (Some promptResult, False, snd (snd caught))
                          | None \<Rightarrow>
                              if rejected (snd (snd caught)) \<noteq> None
                              then (None, False, snd (snd caught))
                              else whileAttempts w apiKeys i len prompt numImages n
                                     (fst (snd caught)) (snd (snd caught)))
      else (None, False, st))"
  by pat_completeness auto
termination
  by (relation "measure (\<lambda>(w, apiKeys, i, len, prompt, numImages, n, attempts, st). n - attempts)")
     (auto simp: catchBlock_def Let_def split: if_splits sum.splits bool.splits)

text \<open>
  What follows the loop for one prompt: \<open>finalResults.push\<close>, \<open>setResults\<close> and, when the
  outcome has an image or a non-empty error, \<open>onGenerationUpdate\<close> with a copy of
  \<open>finalResults\<close>.
\<close>

definition pushResult :: "world \<Rightarrow> string \<Rightarrow> GenerationResult \<Rightarrow> state \<Rightarrow> state" where
  "pushResult w sessionId promptResult st =
     (let st1 = st\<lparr>finalResults := finalResults st @ [promptResult]\<rparr>
      in if length (gr_images promptResult) > 0
            \<or> (case gr_error promptResult of None \<Rightarrow> False | Some e \<Rightarrow> e \<noteq> [])
         then handleGenerationUpdate w sessionId (finalResults st1) st1
         else st1)"

text \<open>
  The loop \<open>for (let i = 0; i < promptsToProcess.length; i++)\<close> from index \<open>i\<close> on, the
  list being the prompts from \<open>i\<close> onwards and \<open>len\<close> the length of the whole list.
\<close>

fun forPrompts ::
  "world \<Rightarrow> ApiKey list \<Rightarrow> nat \<Rightarrow> string \<Rightarrow> nat \<Rightarrow> nat \<Rightarrow> string list \<Rightarrow> state \<Rightarrow> state" where
  "forPrompts w apiKeys numImages sessionId len i [] st = st"
| "forPrompts w apiKeys numImages sessionId len i (prompt # rest) st =
     (if stopRequest st then st\<lparr>statusMessage := StoppedByUser\<rparr>
      else
        let st1 = st\<lparr>statusMessage := Processing (i + 1) len prompt\<rparr>;
            activeKeysForPrompt = filter (\<lambda>k. ak_status k = Active) apiKeys;
            looped = whileAttempts w apiKeys i len prompt numImages
                       (length activeKeysForPrompt) 0 st1;
            promptResult = fst looped;
            success = fst (snd looped);
            st2 = snd (snd looped)
        in if rejected st2 \<noteq> None then st2
           else if stopRequest st2 then st2
           else
             let promptResult' =
                   (if \<not> success \<and> promptResult = None
                    then Some \<lparr>gr_prompt = prompt, gr_images = [],
                               gr_error = Some ''All active API keys failed or are rate limited.''\<rparr>
                    else promptResult)
             in forPrompts w apiKeys numImages sessionId len (i + 1) rest
                  (case promptResult' of
                     None \<Rightarrow> st2
                   | Some r \<Rightarrow> pushResult w sessionId r st2))"

definition promptsToProcess :: "string \<Rightarrow> string list" where
  "promptsToProcess prompts = filter (\<lambda>p. trim p \<noteq> []) (split_nl (trim prompts))"

text \<open>
  \<open>handleGenerate\<close>. The two guards return after an \<open>alert\<close> and change nothing. The
  session identifier is \<open>new Date().toISOString()\<close> at the start of the run. A run
  starts with its promise pending; when an exception has left the prompt loop, the two
  statements after the loop are not executed.
\<close>

definition handleGenerate :: "world \<Rightarrow> ApiKey list \<Rightarrow> string \<Rightarrow> nat \<Rightarrow> state \<Rightarrow> state" where
  "handleGenerate w apiKeys prompts numImages st =
     (if trim prompts = [] then st
      else
        let initialActiveKeys = filter (\<lambda>k. ak_status k = Active) apiKeys
        in if length initialActiveKeys = 0 then st
           else
             let st1 = st\<lparr>isLoading := True, stopRequest := False, statusMessage := Starting,
                          finalResults := [], keyIdx := currentKeyIndex st, rejected := None\<rparr>;
                 sessionId = toISOString w (tick st1);
                 st2 = forPrompts w apiKeys numImages sessionId
                         (length (promptsToProcess prompts)) 0 (promptsToProcess prompts) st1;
                 st3 = (if \<not> stopRequest st2 then st2\<lparr>statusMessage := AllProcessed\<rparr> else st2)
             in if rejected st2 \<noteq> None then st2 else st3\<lparr>isLoading := False\<rparr>)"

section \<open>Example inputs\<close>

text \<open>Two credentials, an idle application, and worlds that answer by suspension number.\<close>

definition keyOne :: ApiKey where
  "keyOne = \<lparr>ak_key = ''key-one'', ak_status = Active, ak_service = AIService_Gemini\<rparr>"

definition keyTwo :: ApiKey where
  "keyTwo = \<lparr>ak_key = ''key-two'', ak_status = Active, ak_service = AIService_Gemini\<rparr>"

definition idle :: "ApiKey list \<Rightarrow> state" where
  "idle apiKeys =
     \<lparr>stopRequest = False, isLoading = False, statusMessage = NoStatus, currentKeyIndex = 0,
      keyIdx = 0, finalResults = [], pool = apiKeys, history = [], store = None,
      rejected = None, tick = 0, calls = [], waited = 0\<rparr>"

definition exampleWorld :: "(nat \<Rightarrow> jsval + string list) \<Rightarrow> (nat \<Rightarrow> bool) \<Rightarrow> world" where
  "exampleWorld answers stops =
     \<lparr>gateway = (\<lambda>t prompt apiKey numImages. answers t), stopClicked = stops,
      stringify = (\<lambda>v. ''{}''), toLocaleString = (\<lambda>t. ''now''),
      toISOString = (\<lambda>t. ''session'')\<rparr>"

text \<open>
  Error bodies as the providers send them. Each has a message, so none reaches
  \<open>JSON.stringify\<close> and the examples may fix that function as they like.
\<close>

definition quotaError :: jsval where
  "quotaError =
     JObj [(''error'', JObj [(''code'', JNum 429), (''message'', JStr ''Quota exceeded.''),
                              (''status'', JStr ''RESOURCE_EXHAUSTED'')])]"

definition blockedError :: jsval where
  "blockedError =
     JObj [(''error'', JObj [(''code'', JNum 400), (''message'', JStr ''The prompt was blocked.''),
                              (''status'', JStr ''INVALID_ARGUMENT'')])]"

definition quotaPromptError :: jsval where
  "quotaPromptError =
     JObj [(''error'', JObj [(''code'', JNum 429),
                              (''message'', JStr ''Quota exceeded for Prompt tokens.''),
                              (''status'', JStr ''RESOURCE_EXHAUSTED'')])]"

definition serverError :: jsval where
  "serverError =
     JObj [(''error'', JObj [(''code'', JNum 500), (''message'', JStr ''Internal error.''),
                              (''status'', JStr ''INTERNAL'')])]"

text \<open>A failed response whose \<open>message\<close> is not a string.\<close>

definition numericMessageError :: jsval where
  "numericMessageError = JObj [(''error'', JObj [(''code'', JNum 429), (''message'', JNum 42)])]"

definition exampleProviders :: providers where
  "exampleProviders =
     \<lparr>generateImagesGemini = (\<lambda>prompt apiKey numImages. Inr [''gemini-image'']),
      generateImagesOpenAI = (\<lambda>prompt apiKey. Inr [''openai-image''])\<rparr>"

text \<open>Worlds: the gateway's answers and the Stop presses, by suspension number.\<close>

definition alwaysImage :: world where
  "alwaysImage = exampleWorld (\<lambda>t. Inr [''image'']) (\<lambda>t. False)"

definition quotaThenImage :: world where
  "quotaThenImage =
     exampleWorld (\<lambda>t. if t = 0 then Inl quotaError else Inr [''image'']) (\<lambda>t. False)"

definition alwaysBlocked :: world where
  "alwaysBlocked = exampleWorld (\<lambda>t. Inl blockedError) (\<lambda>t. False)"

definition stopDuringWait :: world where
  "stopDuringWait = exampleWorld (\<lambda>t. Inl quotaError) (\<lambda>t. t = 1)"

definition stopDuringCall :: world where
  "stopDuringCall = exampleWorld (\<lambda>t. Inr [''image'']) (\<lambda>t. t = 0)"

definition numericMessage :: world where
  "numericMessage = exampleWorld (\<lambda>t. Inl numericMessageError) (\<lambda>t. False)"

definition stopDuringFailingCall :: world where
  "stopDuringFailingCall = exampleWorld (\<lambda>t. Inl quotaError) (\<lambda>t. t = 0)"

text \<open>Stored sessions and an outcome.\<close>

definition olderSession :: HistoryItem where
  "olderSession = \<lparr>hi_id = ''s0'', hi_date = ''d0'', hi_results = []\<rparr>"

definition runningSession :: HistoryItem where
  "runningSession = \<lparr>hi_id = ''s1'', hi_date = ''d1'', hi_results = []\<rparr>"

definition catOutcome :: GenerationResult where
  "catOutcome = \<lparr>gr_prompt = ''cat'', gr_images = [''image''], gr_error = None\<rparr>"

section \<open>Auxiliary facts\<close>

lemmas run_defs = catchBlock_def awaitGenerateImages_def awaitTimeout_def suspend_def
  handleStop_def updateApiKeyStatus_def updateApiKeys_def

lemmas string_defs = trim_def isWhiteSpace_def toLowerCase_def lowerChar_def isUpper_def
  slice_last6_def

lemmas classify_defs = isPromptError_def isRateLimitError_def getErrorMessage_def
  callToLowerCase_def asString_def

lemmas example_defs = keyOne_def keyTwo_def idle_def exampleWorld_def quotaError_def
  blockedError_def quotaPromptError_def serverError_def numericMessageError_def
  numericMessage_def AIService_Gemini_def AIService_OpenAI_def alwaysImage_def quotaThenImage_def alwaysBlocked_def stopDuringWait_def stopDuringCall_def
  stopDuringFailingCall_def olderSession_def runningSession_def catOutcome_def

lemmas eval_defs = handleGenerate_def promptsToProcess_def Let_def whileAttempts.simps run_defs
  string_defs classify_defs example_defs pushResult_def handleGenerationUpdate_def
  updateHistory_def loadHistory_def saveHistory_def

declare whileAttempts.simps [simp del]

lemma lowerChar_plus32: "isUpper c \<Longrightarrow> (of_char (lowerChar c) :: nat) = of_char c + 32"
  by (cases c) (auto simp: lowerChar_def isUpper_def Let_def of_bool_def split: if_splits)

lemma trim_all_ws: "\<forall>c\<in>set s. isWhiteSpace c \<Longrightarrow> trim s = []"
  by (auto simp: trim_def dest: set_dropWhileD)

lemma findIndex_None: "findIndex p xs = None \<longleftrightarrow> (\<forall>x\<in>set xs. \<not> p x)"
  by (induction xs) auto

lemma findIndex_Some:
  "findIndex p xs = Some i \<Longrightarrow> i < length xs \<and> p (xs ! i) \<and> (\<forall>j<i. \<not> p (xs ! j))"
proof (induction xs arbitrary: i)
  case Nil
  then show ?case by simp
next
  case (Cons x xs)
  show ?case
  proof (cases "p x")
    case True
    with Cons.prems show ?thesis by simp
  next
    case False
    with Cons.prems obtain k where k: "findIndex p xs = Some k" "i = Suc k" by auto
    from Cons.IH[OF k(1)] False k(2) show ?thesis
      by (auto simp: nth_Cons split: nat.splits)
  qed
qed

lemma findIndex_update:
  assumes "findIndex (\<lambda>item. hi_id item = sid) h = Some i"
  shows "findIndex (\<lambda>item. hi_id item = sid) (h[i := (h ! i)\<lparr>hi_results := rs\<rparr>]) = Some i"
  using assms
proof (induction h arbitrary: i)
  case Nil
  then show ?case by simp
next
  case (Cons x xs)
  then show ?case by (cases "hi_id x = sid") auto
qed

lemma catchBlock_attempts:
  "fst (catchBlock w apiKeys prompt apiKey error attempts st) = None \<Longrightarrow>
   rejected (snd (snd (catchBlock w apiKeys prompt apiKey error attempts st))) = None \<Longrightarrow>
   fst (snd (catchBlock w apiKeys prompt apiKey error attempts st)) = attempts + 1"
  by (simp add: catchBlock_def Let_def split: sum.splits bool.splits)


lemma isPromptError_string:
  "isPromptError sf error = Inr b \<Longrightarrow> \<exists>message. getErrorMessage sf error = JStr message"
  by (cases "getErrorMessage sf error") (simp_all add: isPromptError_def callToLowerCase_def)

text \<open>
  A relation between states that is reflexive and transitive and that each step of the
  attempt loop respects holds between the loop's entry and its exit.
\<close>

lemma whileAttempts_invariant:
  assumes refl: "\<And>s. R s s" and trans: "\<And>a b c. R a b \<Longrightarrow> R b c \<Longrightarrow> R a c"
    and call: "\<And>s j m k. R s (snd (awaitGenerateImages w prompt k numImages
                                 (s\<lparr>keyIdx := j, statusMessage := m\<rparr>)))"
    and succ: "\<And>s j. R s (s\<lparr>currentKeyIndex := j\<rparr>)"
    and caught: "\<And>s k e a. R s (snd (snd (catchBlock w apiKeys prompt k e a s)))"
  shows "R st (snd (snd (whileAttempts w apiKeys i len prompt numImages n attempts st)))"
proof (induction "n - attempts" arbitrary: attempts st)
  case 0
  then show ?case by (simp add: whileAttempts.simps refl)
next
  case (Suc m)
  then have lt: "attempts < n" by simp
  let ?act = "filter (\<lambda>k. ak_status k = Active) apiKeys"
  show ?case
  proof (cases "stopRequest st \<or> ?act = []")
    case True
    with lt show ?thesis by (auto simp: whileAttempts.simps refl)
  next
    case False
    define st1 where "st1 = st\<lparr>keyIdx := keyIdx st mod length ?act\<rparr>"
    define apiKey where "apiKey = ?act ! keyIdx st1"
    define st2 where
      "st2 = st1\<lparr>statusMessage := TryingKey (i + 1) len (slice_last6 (ak_key apiKey))\<rparr>"
    define called where "called = awaitGenerateImages w prompt (ak_key apiKey) numImages st2"
    note unfold = whileAttempts.simps[of _ _ _ _ _ _ _ attempts st] Let_def called_def st2_def
      st1_def apiKey_def
    have r1: "R st (snd called)"
      unfolding called_def st2_def st1_def by (rule call)
    show ?thesis
    proof (cases "fst called")
      case (Inr generatedImages)
      with lt False
      have "snd (snd (whileAttempts w apiKeys i len prompt numImages n attempts st))
              = (snd called)\<lparr>currentKeyIndex := keyIdx (snd called)\<rparr>"
        by (simp add: unfold)
      with r1 show ?thesis by (metis trans succ)
    next
      case (Inl error)
      define caught' where
        "caught' = catchBlock w apiKeys prompt apiKey error attempts (snd called)"
      have r2: "R st (snd (snd caught'))"
        unfolding caught'_def using r1 caught trans by blast
      show ?thesis
      proof (cases "fst caught'")
        case (Some promptResult)
        with lt False Inl
        have "snd (snd (whileAttempts w apiKeys i len prompt numImages n attempts st))
                = snd (snd caught')"
          by (simp add: unfold caught'_def)
        with r2 show ?thesis by simp
      next
        case None
        show ?thesis
        proof (cases "rejected (snd (snd caught')) = None")
          case False
          with lt \<open>\<not> (stopRequest st \<or> ?act = [])\<close> Inl None
          have "snd (snd (whileAttempts w apiKeys i len prompt numImages n attempts st))
                  = snd (snd caught')"
            by (simp add: unfold caught'_def)
          with r2 show ?thesis by simp
        next
          case True
          with None have a': "fst (snd caught') = attempts + 1"
            unfolding caught'_def by (simp add: catchBlock_attempts)
          with lt \<open>\<not> (stopRequest st \<or> ?act = [])\<close> Inl None True
          have eq: "whileAttempts w apiKeys i len prompt numImages n attempts st
                      = whileAttempts w apiKeys i len prompt numImages n (attempts + 1)
                          (snd (snd caught'))"
            by (simp add: unfold caught'_def)
          from Suc.hyps(2) have "m = n - (attempts + 1)" by simp
          from Suc.hyps(1)[OF this]
          have "R (snd (snd caught'))
                  (snd (snd (whileAttempts w apiKeys i len prompt numImages n (attempts + 1)
                               (snd (snd caught')))))" .
          with r2 eq show ?thesis by (metis trans)
        qed
      qed
    qed
  qed
qed


lemma whileAttempts_frame:
  "finalResults (snd (snd (whileAttempts w apiKeys i len prompt numImages n attempts st)))
     = finalResults st
   \<and> store (snd (snd (whileAttempts w apiKeys i len prompt numImages n attempts st))) = store st
   \<and> history (snd (snd (whileAttempts w apiKeys i len prompt numImages n attempts st)))
       = history st"
  by (rule whileAttempts_invariant
        [where R = "\<lambda>a b. finalResults b = finalResults a \<and> store b = store a
                            \<and> history b = history a"])
     (simp_all add: run_defs Let_def split: sum.splits bool.splits)


lemma handleGenerationUpdate_frame:
  "finalResults (handleGenerationUpdate w sid rs st) = finalResults st
   \<and> stopRequest (handleGenerationUpdate w sid rs st) = stopRequest st"
  by (simp add: handleGenerationUpdate_def split: prod.splits)

lemma pushResult_finalResults:
  "finalResults (pushResult w sid r st) = finalResults st @ [r]"
  by (simp add: pushResult_def Let_def handleGenerationUpdate_frame)


lemma forPrompts_Cons:
  assumes "whileAttempts w apiKeys i len prompt numImages
             (length (filter (\<lambda>k. ak_status k = Active) apiKeys)) 0
             (st\<lparr>statusMessage := Processing (i + 1) len prompt\<rparr>) = (pr, s, st2)"
  shows "forPrompts w apiKeys numImages sid len i (prompt # rest) st =
           (if stopRequest st then st\<lparr>statusMessage := StoppedByUser\<rparr>
            else if rejected st2 \<noteq> None then st2
            else if stopRequest st2 then st2
            else forPrompts w apiKeys numImages sid len (i + 1) rest
                   (case (if \<not> s \<and> pr = None
                          then Some \<lparr>gr_prompt = prompt, gr_images = [],
                                 gr_error =
                                   Some ''All active API keys failed or are rate limited.''\<rparr>
                          else pr) of
                      None \<Rightarrow> st2
                    | Some r \<Rightarrow> pushResult w sid r st2))"
  unfolding forPrompts.simps Let_def assms fst_conv snd_conv by (rule refl)


text \<open>The same for the loop over the prompts.\<close>

lemma forPrompts_invariant:
  assumes refl: "\<And>s. R s s" and trans: "\<And>a b c. R a b \<Longrightarrow> R b c \<Longrightarrow> R a c"
    and status: "\<And>s m. R s (s\<lparr>statusMessage := m\<rparr>)"
    and loop: "\<And>s i prompt n.
                 R s (snd (snd (whileAttempts w apiKeys i len prompt numImages n 0 s)))"
    and push: "\<And>s r. R s (pushResult w sid r s)"
  shows "R st (forPrompts w apiKeys numImages sid len i ps st)"
proof (induction ps arbitrary: i st)
  case Nil
  show ?case by (simp add: refl)
next
  case (Cons prompt rest)
  define st1 where "st1 = st\<lparr>statusMessage := Processing (i + 1) len prompt\<rparr>"
  obtain pr s st2 where l: "whileAttempts w apiKeys i len prompt numImages
         (length (filter (\<lambda>k. ak_status k = Active) apiKeys)) 0 st1 = (pr, s, st2)"
    by (metis prod_cases3)
  have "R st1 (snd (snd (whileAttempts w apiKeys i len prompt numImages
         (length (filter (\<lambda>k. ak_status k = Active) apiKeys)) 0 st1)))" by (rule loop)
  then have r2: "R st st2" using l trans status st1_def by (metis snd_conv)
  note unfold = forPrompts_Cons[OF l[unfolded st1_def], of sid rest]
  show ?case
  proof (cases "stopRequest st")
    case True
    then show ?thesis by (simp only: unfold if_True status)
  next
    case False
    show ?thesis
    proof (cases "rejected st2 \<noteq> None \<or> stopRequest st2")
      case True
      with False r2 show ?thesis by (simp only: unfold) auto
    next
      case ns2: False
      show ?thesis
      proof (cases "if \<not> s \<and> pr = None
                    then Some \<lparr>gr_prompt = prompt, gr_images = [],
                           gr_error = Some ''All active API keys failed or are rate limited.''\<rparr>
                    else pr")
        case None
        with False ns2 have "forPrompts w apiKeys numImages sid len i (prompt # rest) st
           = forPrompts w apiKeys numImages sid len (i + 1) rest st2"
          by (simp only: unfold) simp
        with r2 Cons.IH[of st2 "i + 1"] show ?thesis by (metis trans)
      next
        case (Some r)
        with False ns2 have "forPrompts w apiKeys numImages sid len i (prompt # rest) st
           = forPrompts w apiKeys numImages sid len (i + 1) rest (pushResult w sid r st2)"
          by (simp only: unfold) simp
        moreover have "R st (pushResult w sid r st2)" using r2 push trans by blast
        ultimately show ?thesis
          using Cons.IH[of "pushResult w sid r st2" "i + 1"] by (metis trans)
      qed
    qed
  qed
qed

lemma forPrompts_prefix:
  "prefix (finalResults st) (finalResults (forPrompts w apiKeys numImages sid len i ps st))"
  by (rule forPrompts_invariant[where R = "\<lambda>a b. prefix (finalResults a) (finalResults b)"])
     (auto simp: whileAttempts_frame pushResult_finalResults)


lemma pushResult_store:
  "store (pushResult w sid r st) =
     (if (length (gr_images r) > 0 \<or> (case gr_error r of None \<Rightarrow> False | Some e \<Rightarrow> e \<noteq> []))
         \<and> list_ex (\<lambda>x. length (gr_images x) > 0) (finalResults st @ [r])
      then snd (updateHistory (toLocaleString w (tick st)) sid (finalResults st @ [r]) (store st))
      else store st)"
  by (simp add: pushResult_def handleGenerationUpdate_def Let_def split: prod.splits)


lemma trim_Nil: "trim [] = []"
  by (simp add: trim_def)


lemma forPrompts_no_images:
  "prefix (finalResults st) (finalResults (forPrompts w apiKeys numImages sid len i ps st))
   \<and> ((\<forall>r\<in>set (finalResults (forPrompts w apiKeys numImages sid len i ps st)). gr_images r = [])
        \<longrightarrow> store (forPrompts w apiKeys numImages sid len i ps st) = store st)"
proof (rule forPrompts_invariant
         [where R = "\<lambda>a b. prefix (finalResults a) (finalResults b)
                       \<and> ((\<forall>r\<in>set (finalResults b). gr_images r = []) \<longrightarrow> store b = store a)"])
  fix a b c :: state
  assume ab: "prefix (finalResults a) (finalResults b)
                \<and> ((\<forall>r\<in>set (finalResults b). gr_images r = []) \<longrightarrow> store b = store a)"
    and bc: "prefix (finalResults b) (finalResults c)
                \<and> ((\<forall>r\<in>set (finalResults c). gr_images r = []) \<longrightarrow> store c = store b)"
  from bc have "set (finalResults b) \<subseteq> set (finalResults c)" by (auto dest: set_mono_prefix)
  with ab bc show "prefix (finalResults a) (finalResults c)
                \<and> ((\<forall>r\<in>set (finalResults c). gr_images r = []) \<longrightarrow> store c = store a)"
    by (auto intro: prefix_order.trans)
next
  fix s r
  show "prefix (finalResults s) (finalResults (pushResult w sid r s))
        \<and> ((\<forall>x\<in>set (finalResults (pushResult w sid r s)). gr_images x = [])
             \<longrightarrow> store (pushResult w sid r s) = store s)"
    by (auto simp: pushResult_finalResults pushResult_store list_ex_iff)
qed (simp_all add: whileAttempts_frame)

lemma handleGenerate_no_images:
  assumes "\<forall>r\<in>set (finalResults (handleGenerate w apiKeys prompts numImages st)).
             gr_images r = []"
  shows "store (handleGenerate w apiKeys prompts numImages st) = store st"
proof (cases "trim prompts = [] \<or> filter (\<lambda>k. ak_status k = Active) apiKeys = []")
  case True
  then show ?thesis by (auto simp: handleGenerate_def Let_def)
next
  case False
  define st1 where "st1 = st\<lparr>isLoading := True, stopRequest := False, statusMessage := Starting,
                          finalResults := [], keyIdx := currentKeyIndex st, rejected := None\<rparr>"
  define st2 where "st2 = forPrompts w apiKeys numImages (toISOString w (tick st))
                         (length (promptsToProcess prompts)) 0 (promptsToProcess prompts) st1"
  have fin: "finalResults (handleGenerate w apiKeys prompts numImages st) = finalResults st2"
    and sto: "store (handleGenerate w apiKeys prompts numImages st) = store st2"
    using False by (simp_all add: handleGenerate_def Let_def st2_def st1_def)
  from forPrompts_no_images[of st1 w apiKeys numImages "toISOString w (tick st)"
         "length (promptsToProcess prompts)" 0 "promptsToProcess prompts"] assms
  have "store st2 = store st1" unfolding fin st2_def by blast
  then show ?thesis by (simp add: sto st1_def)
qed

lemma rate_limit_signals:
  "truthy error \<Longrightarrow>
   details = (if truthy (getProp error ''error'') then getProp error ''error'' else error) \<Longrightarrow>
     getProp details ''status'' = JStr ''RESOURCE_EXHAUSTED'' \<or> getProp details ''code'' = JNum 429
     \<or> (\<exists>message. getErrorMessage sf error = JStr message
           \<and> (str_includes (toLowerCase message) ''quota''
                \<or> str_includes (toLowerCase message) ''rate limit''))
   \<Longrightarrow> isRateLimitError sf error = Inr True"
  by (auto simp: isRateLimitError_def callToLowerCase_def Let_def split: jsval.splits)



text \<open>
  For a failure that \<open>isPromptError\<close> finds not to be a prompt rejection, the \<open>catch\<close>
  clause marks the credential used and goes on with \<open>attempts\<close> and \<open>keyIdx\<close> each one
  higher; it waits 2000 milliseconds exactly for a rate-limit failure with Stop not
  requested.
\<close>

lemma catchBlock_key_failure:
  assumes "isPromptError (stringify w) error = Inr False"
  shows "\<exists>rateLimited. isRateLimitError (stringify w) error = Inr rateLimited
           \<and> (case catchBlock w apiKeys prompt apiKey error attempts st of
                (promptResult, attempts', st') \<Rightarrow>
                  promptResult = None \<and> attempts' = attempts + 1 \<and> keyIdx st' = keyIdx st + 1
                  \<and> pool st' = map (\<lambda>k. if ak_key k = ak_key apiKey
                                           then k\<lparr>ak_status := RateLimited\<rparr> else k) apiKeys
                  \<and> waited st' = (if rateLimited \<and> \<not> stopRequest st
                                   then waited st + 2000 else waited st)
                  \<and> calls st' = calls st \<and> rejected st' = rejected st)"
proof -
  from isPromptError_string[OF assms]
  obtain message where m: "getErrorMessage (stringify w) error = JStr message" by blast
  have "\<exists>rateLimited. isRateLimitError (stringify w) error = Inr rateLimited"
    by (auto simp: isRateLimitError_def callToLowerCase_def Let_def m)
  then obtain rateLimited where r: "isRateLimitError (stringify w) error = Inr rateLimited"
    by blast
  have "case catchBlock w apiKeys prompt apiKey error attempts st of
                (promptResult, attempts', st') \<Rightarrow>
                  promptResult = None \<and> attempts' = attempts + 1 \<and> keyIdx st' = keyIdx st + 1
                  \<and> pool st' = map (\<lambda>k. if ak_key k = ak_key apiKey
                                           then k\<lparr>ak_status := RateLimited\<rparr> else k) apiKeys
                  \<and> waited st' = (if rateLimited \<and> \<not> stopRequest st
                                   then waited st + 2000 else waited st)
                  \<and> calls st' = calls st \<and> rejected st' = rejected st"
    by (simp add: run_defs Let_def assms r)
  with r show ?thesis by (intro exI[of _ rateLimited] conjI)
qed


lemma alwaysBlocked_run:
  "finalResults (handleGenerate alwaysBlocked [keyOne] ''cat'' 1 (idle [keyOne]))
     = [\<lparr>gr_prompt = ''cat'', gr_images = [], gr_error = Some ''The prompt was blocked.''\<rparr>]
   \<and> store (handleGenerate alwaysBlocked [keyOne] ''cat'' 1 (idle [keyOne])) = None
   \<and> history (handleGenerate alwaysBlocked [keyOne] ''cat'' 1 (idle [keyOne])) = []"
  by (simp add: eval_defs)

section \<open>One outcome per prompt, in order\<close>




section \<open>The session recorder\<close>

text \<open>
  Claim C7. \<open>updateHistory\<close> is idempotent: for every session identifier, outcome list and
  stored history, a second call with the same identifier and outcomes returns the list and
  leaves the store that the first call did, whatever the time of the second call; so the
  second call changes neither the number of entries nor any entry.
\<close>

theorem updateHistory_idempotent:
  "updateHistory now' sessionId newResults (snd (updateHistory now sessionId newResults st))
     = updateHistory now sessionId newResults st"
proof (cases "findIndex (\<lambda>item. hi_id item = sessionId) (loadHistory st)")
  case None
  then show ?thesis
    by (simp add: updateHistory_def loadHistory_def saveHistory_def Let_def)
next
  case (Some j)
  from findIndex_update[OF Some, of newResults] findIndex_Some[OF Some] Some
  show ?thesis
    by (simp add: updateHistory_def loadHistory_def saveHistory_def Let_def)
qed

text \<open>
  Claim C8. For every stored history and session: \<open>updateHistory\<close> with an identifier that
  no stored entry carries puts the new entry at the head, in front of the stored entries
  as they were; with an identifier that is present it replaces the outcome sequence of the
  first entry carrying it, at that entry's position, and every other entry stays where and
  what it was. The store then holds the returned list.
\<close>

theorem updateHistory_position:
  "(sessionId \<notin> hi_id ` set (loadHistory st) \<longrightarrow>
      fst (updateHistory now sessionId newResults st)
        = \<lparr>hi_id = sessionId, hi_date = now, hi_results = newResults\<rparr> # loadHistory st)
   \<and> (sessionId \<in> hi_id ` set (loadHistory st) \<longrightarrow>
        (\<exists>j<length (loadHistory st).
            hi_id (loadHistory st ! j) = sessionId
            \<and> (\<forall>l<j. hi_id (loadHistory st ! l) \<noteq> sessionId)
            \<and> fst (updateHistory now sessionId newResults st)
                = (loadHistory st)[j := (loadHistory st ! j)\<lparr>hi_results := newResults\<rparr>]))
   \<and> loadHistory (snd (updateHistory now sessionId newResults st))
       = fst (updateHistory now sessionId newResults st)"
proof (cases "findIndex (\<lambda>item. hi_id item = sessionId) (loadHistory st)")
  case None
  then have "sessionId \<notin> hi_id ` set (loadHistory st)"
    by (auto simp: findIndex_None)
  with None show ?thesis
    by (simp add: updateHistory_def Let_def saveHistory_def) (simp add: loadHistory_def)
next
  case (Some j)
  from findIndex_Some[OF Some]
  have j: "j < length (loadHistory st)" "hi_id (loadHistory st ! j) = sessionId"
    "\<forall>l<j. hi_id (loadHistory st ! l) \<noteq> sessionId" by auto
  have eq: "fst (updateHistory now sessionId newResults st)
                = (loadHistory st)[j := (loadHistory st ! j)\<lparr>hi_results := newResults\<rparr>]"
    "loadHistory (snd (updateHistory now sessionId newResults st))
       = fst (updateHistory now sessionId newResults st)"
    using Some by (simp_all add: updateHistory_def Let_def saveHistory_def) (simp add: loadHistory_def)
  from j have "sessionId \<in> hi_id ` set (loadHistory st)"
    by (metis imageI nth_mem)
  with j eq show ?thesis by blast
qed

theorem updateHistory_position_witness:
  "''s2'' \<notin> hi_id ` set (loadHistory (Some [olderSession, runningSession]))
   \<and> fst (updateHistory ''now'' ''s2'' [catOutcome] (Some [olderSession, runningSession]))
       = [\<lparr>hi_id = ''s2'', hi_date = ''now'', hi_results = [catOutcome]\<rparr>,
          olderSession, runningSession]
   \<and> ''s1'' \<in> hi_id ` set (loadHistory (Some [olderSession, runningSession]))
   \<and> fst (updateHistory ''now'' ''s1'' [catOutcome] (Some [olderSession, runningSession]))
       = [olderSession, runningSession\<lparr>hi_results := [catOutcome]\<rparr>]"
proof -
  let ?st = "Some [olderSession, runningSession]"
  have h1: "''s2'' \<notin> hi_id ` set (loadHistory ?st)"
    by (simp add: loadHistory_def olderSession_def runningSession_def)
  have h2: "''s1'' \<in> hi_id ` set (loadHistory ?st)"
    by (simp add: loadHistory_def olderSession_def runningSession_def)
  from updateHistory_position[of "''s2''" ?st "''now''" "[catOutcome]"] h1
  have c1: "fst (updateHistory ''now'' ''s2'' [catOutcome] ?st)
              = \<lparr>hi_id = ''s2'', hi_date = ''now'', hi_results = [catOutcome]\<rparr> # loadHistory ?st"
    by blast
  from updateHistory_position[of "''s1''" ?st "''now''" "[catOutcome]"] h2
  obtain j where j: "j < length (loadHistory ?st)"
      "\<forall>l<j. hi_id (loadHistory ?st ! l) \<noteq> ''s1''"
      "fst (updateHistory ''now'' ''s1'' [catOutcome] ?st)
         = (loadHistory ?st)[j := (loadHistory ?st ! j)\<lparr>hi_results := [catOutcome]\<rparr>]"
      "hi_id (loadHistory ?st ! j) = ''s1''"
    by blast
  from j(1) have "j = 0 \<or> j = 1" by (auto simp: loadHistory_def)
  with j(4) have "j = 1" by (auto simp: loadHistory_def olderSession_def)
  with j(3) have c2: "fst (updateHistory ''now'' ''s1'' [catOutcome] ?st)
       = [olderSession, runningSession\<lparr>hi_results := [catOutcome]\<rparr>]"
    by (simp add: loadHistory_def)
  from h1 h2 c1 c2 show ?thesis by (simp add: loadHistory_def)
qed

section \<open>The gateway's guards\<close>

text \<open>
  Claim C10. For every prompt, image count and service, \<open>generateImages\<close> with a key that
  is empty or all white space throws \<open>A valid API key must be provided.\<close> and calls no
  provider; with a service that is neither of the two supported ones it throws and calls
  no provider either (the error that leaves the dispatcher is then the one its \<open>catch\<close>
  clause builds).
\<close>

theorem generateImages_rejects_before_dispatch:
  "((\<forall>c\<in>set apiKey. isWhiteSpace c) \<longrightarrow>
      generateImages pv prompt apiKey numImages service
        = ([], Inl (JError ''A valid API key must be provided.'')))
   \<and> (service \<noteq> AIService_Gemini \<and> service \<noteq> AIService_OpenAI \<longrightarrow>
        (\<exists>e. generateImages pv prompt apiKey numImages service = ([], Inl e)))
   \<and> (service \<noteq> AIService_Gemini \<and> service \<noteq> AIService_OpenAI \<and> trim apiKey \<noteq> [] \<longrightarrow>
        generateImages pv prompt apiKey numImages service
          = ([], Inl (JError (''Failed to call the '' @ service
                @ '' API. Please check your network connection or console for details.''))))"
  by (auto simp: generateImages_def trim_all_ws trim_Nil)

theorem generateImages_rejects_before_dispatch_witness:
  "list_all isWhiteSpace ''  ''
   \<and> generateImages exampleProviders ''cat'' ''  '' 1 AIService_Gemini
        = ([], Inl (JError ''A valid API key must be provided.''))
   \<and> generateImages exampleProviders ''cat'' ''key-one'' 1 ''Midjourney''
        = ([], Inl (JError ''Failed to call the Midjourney API. Please check your network connection or console for details.''))"
proof -
  have h1: "\<forall>c\<in>set ''  ''. isWhiteSpace c" by (simp add: isWhiteSpace_def)
  have h2: "''Midjourney'' \<noteq> AIService_Gemini \<and> ''Midjourney'' \<noteq> AIService_OpenAI \<and> trim ''key-one'' \<noteq> []"
    by (simp add: example_defs string_defs)
  from generateImages_rejects_before_dispatch[of "''  ''" exampleProviders "''cat''" 1 AIService_Gemini] h1
    generateImages_rejects_before_dispatch[of "''key-one''" exampleProviders "''cat''" 1 "''Midjourney''"] h2
  show ?thesis by (simp add: list_all_iff)
qed

section \<open>Failure handling within one prompt\<close>

text \<open>
  Claim C4. When the gateway call of an attempt fails with a prompt rejection, the credential
  list is left as it was (no credential is marked), the attempt loop ends at once with
  that one gateway call as its last, and the prompt's outcome carries the rejection message
  and no image; no cool-down is waited.
\<close>

theorem prompt_rejection_ends_retry:
  assumes "attempts < n" and "\<not> stopRequest st"
    and "currentActiveKeys = filter (\<lambda>k. ak_status k = Active) apiKeys"
    and "currentActiveKeys \<noteq> []"
    and "apiKey = currentActiveKeys ! (keyIdx st mod length currentActiveKeys)"
    and "gateway w (tick st) prompt (ak_key apiKey) numImages = Inl error"
    and "isPromptError (stringify w) error = Inr True"
  shows "\<exists>message. getErrorMessage (stringify w) error = JStr message
           \<and> (case whileAttempts w apiKeys i len prompt numImages n attempts st of
                (promptResult, success, st') \<Rightarrow>
                  promptResult = Some \<lparr>gr_prompt = prompt, gr_images = [],
                                        gr_error = Some message\<rparr>
                  \<and> \<not> success
                  \<and> pool st' = pool st
                  \<and> calls st' = calls st @ [(prompt, ak_key apiKey, numImages)]
                  \<and> waited st' = waited st)"
proof -
  from isPromptError_string[OF assms(7)]
  obtain message where m: "getErrorMessage (stringify w) error = JStr message" by blast
  with assms have h: "case whileAttempts w apiKeys i len prompt numImages n attempts st of
                (promptResult, success, st') \<Rightarrow>
                  promptResult = Some \<lparr>gr_prompt = prompt, gr_images = [],
                                        gr_error = Some message\<rparr>
                  \<and> \<not> success
                  \<and> pool st' = pool st
                  \<and> calls st' = calls st @ [(prompt, ak_key apiKey, numImages)]
                  \<and> waited st' = waited st"
    by (simp add: whileAttempts.simps[of _ _ _ _ _ _ _ attempts st] Let_def catchBlock_def
          awaitGenerateImages_def suspend_def handleStop_def asString_def)
  show ?thesis by (rule exI[of _ message], rule conjI[OF m h])
qed

theorem prompt_rejection_ends_retry_witness:
  "(0::nat) < 2 \<and> \<not> stopRequest (idle [keyOne, keyTwo])
   \<and> filter (\<lambda>k. ak_status k = Active) [keyOne, keyTwo] \<noteq> []
   \<and> gateway alwaysBlocked (tick (idle [keyOne, keyTwo])) ''cat'' (ak_key keyOne) 1 = Inl blockedError
   \<and> isPromptError (stringify alwaysBlocked) blockedError = Inr True
   \<and> fst (whileAttempts alwaysBlocked [keyOne, keyTwo] 0 1 ''cat'' 1 2 0 (idle [keyOne, keyTwo]))
       = Some \<lparr>gr_prompt = ''cat'', gr_images = [], gr_error = Some ''The prompt was blocked.''\<rparr>
   \<and> pool (snd (snd (whileAttempts alwaysBlocked [keyOne, keyTwo] 0 1 ''cat'' 1 2 0 (idle [keyOne, keyTwo]))))
       = [keyOne, keyTwo]
   \<and> calls (snd (snd (whileAttempts alwaysBlocked [keyOne, keyTwo] 0 1 ''cat'' 1 2 0 (idle [keyOne, keyTwo]))))
       = [(''cat'', ''key-one'', 1)]"
proof -
  let ?st = "idle [keyOne, keyTwo]"
  have h1: "(0::nat) < 2" by simp
  have h2: "\<not> stopRequest ?st" by (simp add: idle_def)
  have h4: "filter (\<lambda>k. ak_status k = Active) [keyOne, keyTwo] \<noteq> []"
    by (simp add: keyOne_def)
  have h5: "keyOne = filter (\<lambda>k. ak_status k = Active) [keyOne, keyTwo]
                ! (keyIdx ?st mod length (filter (\<lambda>k. ak_status k = Active) [keyOne, keyTwo]))"
    by (simp add: keyOne_def keyTwo_def idle_def)
  have h6: "gateway alwaysBlocked (tick ?st) ''cat'' (ak_key keyOne) 1 = Inl blockedError"
    by (simp add: alwaysBlocked_def exampleWorld_def)
  have h7: "isPromptError (stringify alwaysBlocked) blockedError = Inr True"
    by (simp add: alwaysBlocked_def exampleWorld_def blockedError_def classify_defs string_defs)
  have m: "getErrorMessage (stringify alwaysBlocked) blockedError
             = JStr ''The prompt was blocked.''"
    by (simp add: blockedError_def classify_defs)
  from prompt_rejection_ends_retry[OF h1 h2 refl h4 h5 h6 h7, where i = 0 and len = 1]
  show ?thesis using h1 h2 h4 h6 h7
    by (auto simp: m split: prod.splits) (simp_all add: idle_def keyOne_def)
qed

text \<open>
  Claim C5 does not hold of the code. A failure that is not a prompt rejection and carries
  the code 429 is a rate-limit failure by the claim, yet when its \<open>message\<close> is not a
  string (here the number 42) the \<open>catch\<close> clause never gets to mark the credential:
  \<open>getErrorMessage\<close> returns the number, \<open>isPromptError\<close> calls \<open>toLowerCase\<close> on it and
  throws, and the exception ends the run. No credential is marked, nothing is waited, the
  second credential is never tried and the prompt has no outcome.
\<close>

theorem non_string_message_ends_run:
  "getErrorMessage (stringify numericMessage) numericMessageError = JNum 42
   \<and> isPromptError (stringify numericMessage) numericMessageError = Inl TypeError
   \<and> catchBlock numericMessage [keyOne, keyTwo] ''cat'' keyOne numericMessageError 0
        (idle [keyOne, keyTwo])
      = (None, 0, (idle [keyOne, keyTwo])\<lparr>rejected := Some TypeError\<rparr>)
   \<and> pool (handleGenerate numericMessage [keyOne, keyTwo] ''cat'' 1 (idle [keyOne, keyTwo]))
      = [keyOne, keyTwo]
   \<and> calls (handleGenerate numericMessage [keyOne, keyTwo] ''cat'' 1 (idle [keyOne, keyTwo]))
      = [(''cat'', ''key-one'', 1)]
   \<and> waited (handleGenerate numericMessage [keyOne, keyTwo] ''cat'' 1 (idle [keyOne, keyTwo]))
      = 0
   \<and> finalResults (handleGenerate numericMessage [keyOne, keyTwo] ''cat'' 1
                      (idle [keyOne, keyTwo])) = []"
  by (simp add: eval_defs)

text \<open>
  Claim C9. An error whose extracted message, in lower case, contains \<open>prompt\<close> or
  \<open>safety\<close> is handled as a prompt rejection whatever else it carries: the \<open>catch\<close>
  clause ends the retry for the prompt with the message as its error and changes nothing
  of the state, so the credential keeps its status. The witness is an error that also
  passes the rate-limit test (code 429, status \<open>RESOURCE_EXHAUSTED\<close>).
\<close>

theorem prompt_wording_takes_precedence:
  assumes "getErrorMessage (stringify w) error = JStr message"
    and "str_includes (toLowerCase message) ''prompt''
         \<or> str_includes (toLowerCase message) ''safety''"
  shows "isPromptError (stringify w) error = Inr True
         \<and> catchBlock w apiKeys prompt apiKey error attempts st
           = (Some \<lparr>gr_prompt = prompt, gr_images = [], gr_error = Some message\<rparr>,
              attempts, st)"
  using assms
  by (simp add: catchBlock_def isPromptError_def callToLowerCase_def asString_def Let_def)

theorem prompt_wording_takes_precedence_witness:
  "getErrorMessage (stringify alwaysImage) quotaPromptError
     = JStr ''Quota exceeded for Prompt tokens.''
   \<and> str_includes (toLowerCase ''Quota exceeded for Prompt tokens.'') ''prompt''
   \<and> isRateLimitError (stringify alwaysImage) quotaPromptError = Inr True
   \<and> catchBlock alwaysImage [keyOne, keyTwo] ''cat'' keyOne quotaPromptError 0 (idle [keyOne, keyTwo])
       = (Some \<lparr>gr_prompt = ''cat'', gr_images = [],
                 gr_error = Some ''Quota exceeded for Prompt tokens.''\<rparr>, 0, idle [keyOne, keyTwo])"
proof -
  have m: "getErrorMessage (stringify alwaysImage) quotaPromptError
             = JStr ''Quota exceeded for Prompt tokens.''"
    by (simp add: quotaPromptError_def classify_defs)
  have h: "str_includes (toLowerCase ''Quota exceeded for Prompt tokens.'') ''prompt''"
    by (simp add: string_defs)
  have r: "isRateLimitError (stringify alwaysImage) quotaPromptError = Inr True"
    by (simp add: isRateLimitError_def quotaPromptError_def)
  from prompt_wording_takes_precedence[OF m disjI1[OF h], where apiKeys = "[keyOne, keyTwo]"
         and prompt = "''cat''" and apiKey = keyOne and attempts = 0 and st = "idle [keyOne, keyTwo]"]
       m h r
  show ?thesis by simp
qed

section \<open>Recording and persisting outcomes\<close>

text \<open>
  Claim C3, as the claim states it, fails: a run whose only outcome carries an error and no
  image hands its result sequence to \<open>onGenerationUpdate\<close>, and \<open>handleGenerationUpdate\<close>
  writes nothing, because no outcome of the sequence has an image. Here the gateway rejects
  the prompt; the outcome is recorded with its error, and the store stays empty.
\<close>

theorem rejected_run_is_not_persisted:
  "finalResults (handleGenerate alwaysBlocked [keyOne] ''cat'' 1 (idle [keyOne]))
     = [\<lparr>gr_prompt = ''cat'', gr_images = [], gr_error = Some ''The prompt was blocked.''\<rparr>]
   \<and> store (handleGenerate alwaysBlocked [keyOne] ''cat'' 1 (idle [keyOne])) = None
   \<and> history (handleGenerate alwaysBlocked [keyOne] ''cat'' 1 (idle [keyOne])) = []"
  by (rule alwaysBlocked_run)

text \<open>
  Claim C3, amended. After every resolved prompt the outcome is appended to the result
  sequence, and the whole accumulated sequence is written to the store under the run's
  session identifier if and only if the outcome carries at least one image or a non-empty
  error and at least one outcome of the accumulated sequence carries an image. The write
  creates the session entry at the head when no entry carries the identifier and otherwise
  overwrites the outcome sequence of the entry that does. A run whose outcomes all carry
  no image leaves the store as it was.
\<close>

theorem pushResult_flushes:
  "finalResults (pushResult w sessionId promptResult st) = finalResults st @ [promptResult]
   \<and> store (pushResult w sessionId promptResult st) =
       (if (gr_images promptResult \<noteq> [] \<or> (\<exists>e. gr_error promptResult = Some e \<and> e \<noteq> []))
           \<and> (\<exists>r\<in>set (finalResults st @ [promptResult]). gr_images r \<noteq> [])
        then Some (case findIndex (\<lambda>item. hi_id item = sessionId) (loadHistory (store st)) of
                     None \<Rightarrow>
                       \<lparr>hi_id = sessionId, hi_date = toLocaleString w (tick st),
                        hi_results = finalResults st @ [promptResult]\<rparr> # loadHistory (store st)
                   | Some j \<Rightarrow>
                       (loadHistory (store st))
                         [j := (loadHistory (store st) ! j)
                                 \<lparr>hi_results := finalResults st @ [promptResult]\<rparr>])
        else store st)
   \<and> ((\<forall>r\<in>set (finalResults (handleGenerate w apiKeys prompts numImages st)). gr_images r = [])
        \<longrightarrow> store (handleGenerate w apiKeys prompts numImages st) = store st)"
proof -
  have "store (pushResult w sessionId promptResult st) =
       (if (gr_images promptResult \<noteq> [] \<or> (\<exists>e. gr_error promptResult = Some e \<and> e \<noteq> []))
           \<and> (\<exists>r\<in>set (finalResults st @ [promptResult]). gr_images r \<noteq> [])
        then Some (case findIndex (\<lambda>item. hi_id item = sessionId) (loadHistory (store st)) of
                     None \<Rightarrow>
                       \<lparr>hi_id = sessionId, hi_date = toLocaleString w (tick st),
                        hi_results = finalResults st @ [promptResult]\<rparr> # loadHistory (store st)
                   | Some j \<Rightarrow>
                       (loadHistory (store st))
                         [j := (loadHistory (store st) ! j)
                                 \<lparr>hi_results := finalResults st @ [promptResult]\<rparr>])
        else store st)"
    by (cases "gr_error promptResult")
       (auto simp: pushResult_store updateHistory_def saveHistory_def Let_def list_ex_iff)
  then show ?thesis
    using handleGenerate_no_images[of w apiKeys prompts numImages st]
    by (simp only: pushResult_finalResults) blast
qed

theorem pushResult_flushes_witness:
  "store (pushResult alwaysImage ''session'' catOutcome (idle [keyOne]))
     = Some [\<lparr>hi_id = ''session'', hi_date = ''now'', hi_results = [catOutcome]\<rparr>]
   \<and> list_all (\<lambda>r. gr_images r = [])
        (finalResults (handleGenerate alwaysBlocked [keyOne] ''cat'' 1 (idle [keyOne])))
   \<and> store (handleGenerate alwaysBlocked [keyOne] ''cat'' 1 (idle [keyOne]))
       = store (idle [keyOne])"
proof -
  have h: "\<forall>r\<in>set (finalResults (handleGenerate alwaysBlocked [keyOne] ''cat'' 1 (idle [keyOne]))).
             gr_images r = []"
    using alwaysBlocked_run by simp
  from pushResult_flushes[of alwaysBlocked "''session''" catOutcome "idle [keyOne]" "[keyOne]"
         "''cat''" 1] h
  have c: "store (handleGenerate alwaysBlocked [keyOne] ''cat'' 1 (idle [keyOne]))
             = store (idle [keyOne])"
    by blast
  have p: "store (pushResult alwaysImage ''session'' catOutcome (idle [keyOne]))
             = Some [\<lparr>hi_id = ''session'', hi_date = ''now'', hi_results = [catOutcome]\<rparr>]"
    using pushResult_flushes[of alwaysImage "''session''" catOutcome "idle [keyOne]"]
    by (simp add: example_defs loadHistory_def)
  from h c p show ?thesis by (simp add: list_all_iff)
qed

section \<open>Cancellation\<close>

text \<open>
  Claim C6, as the claim states it, fails. The flag is read before the cool-down timer is
  started, not while it runs: with Stop pressed during the timer (suspension 1) the run has
  still waited the whole 2000 milliseconds. The flag is also read a fourth time, after the
  attempt loop: with Stop pressed during a gateway call that then succeeds, the call was
  made and its outcome is not appended. And a run that ends there reports no
  stopped-by-user status: with Stop pressed during a gateway call that fails on quota, the
  last status is the rate-limit message.
\<close>

theorem cancel_during_wait_waits_in_full:
  "waited (handleGenerate stopDuringWait [keyOne, keyTwo] ''cat'' 1 (idle [keyOne, keyTwo]))
     = 2000
   \<and> stopRequest (handleGenerate stopDuringWait [keyOne, keyTwo] ''cat'' 1
                    (idle [keyOne, keyTwo]))
   \<and> finalResults (handleGenerate stopDuringCall [keyOne] ''cat'' 1 (idle [keyOne])) = []
   \<and> calls (handleGenerate stopDuringCall [keyOne] ''cat'' 1 (idle [keyOne]))
       = [(''cat'', ''key-one'', 1)]
   \<and> statusMessage (handleGenerate stopDuringFailingCall [keyOne, keyTwo] ''cat'' 1
                       (idle [keyOne, keyTwo]))
       = KeyRateLimited ''ey-one''"
  by (simp add: eval_defs)

text \<open>
  Claim C6, amended. The cancellation flag is read before each prompt is started (a set
  flag ends the run there with the status \<open>Generation stopped by user.\<close> and nothing else
  changed), before each credential attempt (a set flag leaves the attempt loop with no
  gateway call), immediately before the cool-down timer is started (a set flag skips the
  whole wait; once started, the timer runs its full 2000 milliseconds whatever is pressed
  meanwhile), and after the attempt loop of each prompt (a set flag ends the run there
  without appending that prompt's outcome). Cancellation never removes or alters an outcome
  already appended: the result sequence before any part of the prompt loop is an initial
  segment of the result sequence after it.
\<close>

theorem cancellation_points:
  "(stopRequest st \<longrightarrow>
      forPrompts w apiKeys numImages sessionId len i (prompt # rest) st
        = st\<lparr>statusMessage := StoppedByUser\<rparr>)
   \<and> (stopRequest st \<longrightarrow>
        whileAttempts w apiKeys i len prompt numImages n attempts st = (None, False, st))
   \<and> (isPromptError (stringify w) error = Inr False
        \<and> isRateLimitError (stringify w) error = Inr True \<longrightarrow>
        waited (snd (snd (catchBlock w apiKeys prompt apiKey error attempts st)))
          = (if stopRequest st then waited st else waited st + 2000)
        \<and> tick (snd (snd (catchBlock w apiKeys prompt apiKey error attempts st)))
          = (if stopRequest st then tick st else tick st + 1))
   \<and> (\<not> stopRequest st
        \<and> stopRequest (snd (snd (whileAttempts w apiKeys i len prompt numImages
                                   (length (filter (\<lambda>k. ak_status k = Active) apiKeys)) 0
                                   (st\<lparr>statusMessage := Processing (i + 1) len prompt\<rparr>)))) \<longrightarrow>
        forPrompts w apiKeys numImages sessionId len i (prompt # rest) st
          = snd (snd (whileAttempts w apiKeys i len prompt numImages
                        (length (filter (\<lambda>k. ak_status k = Active) apiKeys)) 0
                        (st\<lparr>statusMessage := Processing (i + 1) len prompt\<rparr>)))
        \<and> finalResults (forPrompts w apiKeys numImages sessionId len i (prompt # rest) st)
            = finalResults st)
   \<and> prefix (finalResults st)
        (finalResults (forPrompts w apiKeys numImages sessionId len i ps st))"
proof -
  have a: "stopRequest st \<longrightarrow>
      forPrompts w apiKeys numImages sessionId len i (prompt # rest) st
        = st\<lparr>statusMessage := StoppedByUser\<rparr>"
    by simp
  have b: "stopRequest st \<longrightarrow>
        whileAttempts w apiKeys i len prompt numImages n attempts st = (None, False, st)"
    by (simp add: whileAttempts.simps)
  have c: "isPromptError (stringify w) error = Inr False
        \<and> isRateLimitError (stringify w) error = Inr True \<longrightarrow>
        waited (snd (snd (catchBlock w apiKeys prompt apiKey error attempts st)))
          = (if stopRequest st then waited st else waited st + 2000)
        \<and> tick (snd (snd (catchBlock w apiKeys prompt apiKey error attempts st)))
          = (if stopRequest st then tick st else tick st + 1)"
    by (simp add: run_defs Let_def)
  have d: "\<not> stopRequest st
        \<and> stopRequest (snd (snd (whileAttempts w apiKeys i len prompt numImages
                                   (length (filter (\<lambda>k. ak_status k = Active) apiKeys)) 0
                                   (st\<lparr>statusMessage := Processing (i + 1) len prompt\<rparr>)))) \<longrightarrow>
        forPrompts w apiKeys numImages sessionId len i (prompt # rest) st
          = snd (snd (whileAttempts w apiKeys i len prompt numImages
                        (length (filter (\<lambda>k. ak_status k = Active) apiKeys)) 0
                        (st\<lparr>statusMessage := Processing (i + 1) len prompt\<rparr>)))
        \<and> finalResults (forPrompts w apiKeys numImages sessionId len i (prompt # rest) st)
            = finalResults st"
    by (simp add: Let_def whileAttempts_frame)
  from a b c d forPrompts_prefix show ?thesis by blast
qed

theorem cancellation_points_witness:
  "stopRequest ((idle [keyOne])\<lparr>stopRequest := True\<rparr>)
   \<and> forPrompts alwaysImage [keyOne] 1 ''session'' 2 0 [''cat'', ''dog'']
        ((idle [keyOne])\<lparr>stopRequest := True\<rparr>)
      = (idle [keyOne])\<lparr>stopRequest := True, statusMessage := StoppedByUser\<rparr>
   \<and> whileAttempts alwaysImage [keyOne] 0 2 ''cat'' 1 1 0 ((idle [keyOne])\<lparr>stopRequest := True\<rparr>)
      = (None, False, (idle [keyOne])\<lparr>stopRequest := True\<rparr>)
   \<and> isPromptError (stringify stopDuringWait) quotaError = Inr False
   \<and> isRateLimitError (stringify stopDuringWait) quotaError = Inr True
   \<and> waited (snd (snd (catchBlock stopDuringWait [keyOne] ''cat'' keyOne quotaError 0
                          ((idle [keyOne])\<lparr>tick := 1\<rparr>)))) = 2000
   \<and> stopRequest (snd (snd (catchBlock stopDuringWait [keyOne] ''cat'' keyOne quotaError 0
                          ((idle [keyOne])\<lparr>tick := 1\<rparr>))))"
proof -
  let ?st = "(idle [keyOne])\<lparr>stopRequest := True\<rparr>"
  have h: "stopRequest ?st" by simp
  have q: "isPromptError (stringify stopDuringWait) quotaError = Inr False"
      "isRateLimitError (stringify stopDuringWait) quotaError = Inr True"
    by (simp_all add: classify_defs string_defs example_defs)
  have ns: "\<not> stopRequest ((idle [keyOne])\<lparr>tick := 1\<rparr>)" by (simp add: idle_def)
  have w0: "waited ((idle [keyOne])\<lparr>tick := 1\<rparr>) = 0" by (simp add: idle_def)
  have s: "stopRequest (snd (snd (catchBlock stopDuringWait [keyOne] ''cat'' keyOne quotaError 0
                          ((idle [keyOne])\<lparr>tick := 1\<rparr>))))"
    using q by (simp add: run_defs Let_def idle_def stopDuringWait_def exampleWorld_def)
  from cancellation_points[where st = ?st and w = alwaysImage and apiKeys = "[keyOne]"
          and numImages = 1 and sessionId = "''session''" and len = 2 and i = 0
          and prompt = "''cat''" and rest = "[''dog'']" and n = 1 and attempts = 0] h
    cancellation_points[where st = "(idle [keyOne])\<lparr>tick := 1\<rparr>" and w = stopDuringWait
          and apiKeys = "[keyOne]" and prompt = "''cat''" and error = quotaError
          and apiKey = keyOne and attempts = 0] q ns w0 s
  show ?thesis by simp
qed

section \<open>Credentials degraded during a run\<close>

text \<open>
  Claim C2 does not hold of the code. The attempt loop does recompute the active set before
  each attempt, but from \<open>apiKeys\<close>, the array its closure captured when the run began;
  \<open>updateApiKeyStatus\<close> gives a new array to \<open>setApiKeys\<close> and never changes that one. So
  the recomputed set never shrinks. With one credential and the prompts \<open>cat\<close> and \<open>dog\<close>,
  a quota failure on \<open>cat\<close> marks the only credential rate limited (first line: the pool
  after a run on \<open>cat\<close> alone), and the run still calls the gateway for \<open>dog\<close> with that
  credential and records its image.
\<close>

theorem degraded_key_is_called_again:
  "pool (handleGenerate quotaThenImage [keyOne] ''cat'' 1 (idle [keyOne]))
     = [keyOne\<lparr>ak_status := RateLimited\<rparr>]
   \<and> finalResults (handleGenerate quotaThenImage [keyOne] ''cat\<newline>dog'' 1 (idle [keyOne]))
     = [\<lparr>gr_prompt = ''cat'', gr_images = [],
         gr_error = Some ''All active API keys failed or are rate limited.''\<rparr>,
        \<lparr>gr_prompt = ''dog'', gr_images = [''image''], gr_error = None\<rparr>]
   \<and> calls (handleGenerate quotaThenImage [keyOne] ''cat\<newline>dog'' 1 (idle [keyOne]))
     = [(''cat'', ''key-one'', 1), (''dog'', ''key-one'', 1)]"
  by (simp add: eval_defs)

end
